theory Spec2Isabelle
  imports Complex_Main "HOL-Library.Sublist"
begin

section \<open>Number model\<close>

text \<open>
  The routes compute with JavaScript numbers, which are IEEE-754 doubles. Integers
  (\<open>interval\<close>, \<open>repetitions\<close>, clock readings in milliseconds) are \<^typ>\<open>int\<close>; the ease
  factor, the quality and the scores of the ranking are \<^typ>\<open>real\<close>.

  Two computations are modelled with the rounding of doubles, because the rounding decides
  their result: the product in \<open>Math.round(interval * easeFactor)\<close> of the review route
  (\<open>js_times\<close> below), and \<open>cosineSimilarity\<close> as the code runs it
  (\<open>js_cosineSimilarity\<close>). The ease-factor update is kept in exact arithmetic, and so
  are the scores the ranking is stated with; these values stand for the doubles of the
  code up to rounding error. \<open>Math.round\<close> rounds half up, which is \<^const>\<open>round\<close>.
\<close>

subsection \<open>Doubles\<close>

text \<open>Rounding to the nearest integer, ties to the even one.\<close>

definition round_even :: "real \<Rightarrow> int" where
  "round_even x =
     (let n = \<lfloor>x\<rfloor>; r = x - of_int n
      in if r < 1 / 2 then n
         else if 1 / 2 < r then n + 1
         else if even n then n else n + 1)"

text \<open>The binary exponent of a nonzero number: \<open>2 ^ binade x \<le> |x| < 2 ^ (binade x + 1)\<close>.\<close>

definition binade :: "real \<Rightarrow> int" where
  "binade x = \<lfloor>log 2 \<bar>x\<bar>\<rfloor>"

text \<open>
  The double nearest to a number (53 significant bits, ties to even). Exponent limits are
  not part of it: it is the IEEE rounding for magnitudes between \<open>2 ^ -1022\<close> and
  \<open>2 ^ 1024\<close>, where every value the columns of the \<open>flashcards\<close> table hold, and every
  product of two of them, lies.
\<close>

definition to_double :: "real \<Rightarrow> real" where
  "to_double x =
     (if x = 0 then 0
      else of_int (round_even (x / 2 powi (binade x - 52))) * 2 powi (binade x - 52))"

text \<open>
  The product \<open>x * y\<close> of two JavaScript numbers. The operands are doubles: a model value
  is read as the double nearest to it.
\<close>

definition js_times :: "real \<Rightarrow> real \<Rightarrow> real" where
  "js_times x y = to_double (to_double x * to_double y)"

section \<open>Flashcards and the SM-2 transition\<close>

text \<open>
  The three spaced-repetition columns of the \<open>flashcards\<close> table, with the defaults the
  schema gives a new row.
\<close>

record repetition_state =
  easeFactor :: real
  interval :: int
  repetitions :: int

text \<open>
  A row of the \<open>flashcards\<close> table: the spaced-repetition columns, the key and the two
  review timestamps (milliseconds since the epoch; \<open>last_reviewed\<close> is nullable). The text
  columns play no part in a review and are left out.
\<close>

record flashcard = repetition_state +
  card_id :: string
  nextReview :: int
  lastReviewed :: "int option"

definition default_state :: repetition_state where
  "default_state = \<lparr>easeFactor = 2.5, interval = 0, repetitions = 0\<rparr>"

text \<open>
  The ease-factor adjustment of the review route:
  \<open>0.1 - (5 - q) * (0.08 + (5 - q) * 0.02)\<close>.
\<close>

definition ease_delta :: "real \<Rightarrow> real" where
  "ease_delta q = 0.1 - (5 - q) * (0.08 + (5 - q) * 0.02)"

text \<open>
  The block of the review route marked "SM-2 Algorithm implementation". It works on the
  three locals \<open>easeFactor\<close>, \<open>interval\<close>, \<open>repetitions\<close> taken from the row: the interval
  and the repetition count are set first, from the stored values; the ease factor is
  updated afterwards.
\<close>

definition sm2 :: "repetition_state \<Rightarrow> real \<Rightarrow> repetition_state" where
  "sm2 s q =
     (let (interval', repetitions') =
            (if q \<ge> 3 then
               ((if repetitions s = 0 then 1
                 else if repetitions s = 1 then 6
                 else round (js_times (real_of_int (interval s)) (easeFactor s))),
                repetitions s + 1)
             else (1, 0));
          easeFactor' = max 1.3 (easeFactor s + ease_delta q)
      in \<lparr>easeFactor = easeFactor', interval = interval', repetitions = repetitions'\<rparr>)"

text \<open>The quality ratings of the SM-2 scale, 0 to 5.\<close>

definition qualities :: "real set" where
  "qualities = {0, 1, 2, 3, 4, 5}"

text \<open>\<open>let { easeFactor, interval, repetitions } = flashcard\<close>\<close>

definition schedule_of :: "flashcard \<Rightarrow> repetition_state" where
  "schedule_of fc =
     \<lparr>easeFactor = easeFactor fc, interval = interval fc, repetitions = repetitions fc\<rparr>"

subsection \<open>What the columns and a Date can hold\<close>

text \<open>The \<open>integer\<close> columns (\<open>interval\<close>, \<open>repetitions\<close>, \<open>reviews.quality\<close>) are 32-bit.\<close>

definition int32 :: "int \<Rightarrow> bool" where
  "int32 i = (- 2147483648 \<le> i \<and> i \<le> 2147483647)"



text \<open>A \<open>Date\<close> holds a time value of at most 8.64e15 milliseconds either side of the epoch.\<close>

definition valid_date :: "int \<Rightarrow> bool" where
  "valid_date t = (\<bar>t\<bar> \<le> 8640000000000000)"

definition ms_per_day :: int where
  "ms_per_day = 86400000"

text \<open>
  \<open>nextReview.setDate(nextReview.getDate() + interval)\<close> on a fresh \<open>Date\<close>. The day is
  set on the local calendar, so the time value moves by \<open>interval\<close> days and by
  \<open>offset_change\<close>, the difference between the local UTC offsets at the clock reading and
  at the new date (0 on a server without offset changes). A time value out of range makes
  the \<open>Date\<close> invalid (\<open>None\<close>).
\<close>

definition next_review_date :: "int \<Rightarrow> int \<Rightarrow> int \<Rightarrow> int option" where
  "next_review_date now days offset_change =
     (let t = now + days * ms_per_day + offset_change
      in if valid_date now \<and> valid_date t then Some t else None)"

section \<open>The review route\<close>

text \<open>
  The JSON body of \<open>POST /api/flashcards/review\<close>: either field may be absent. A present
  \<open>quality\<close> is taken to convert to a number with \<open>Number\<close>; the route does nothing else
  to it.
\<close>

record review_body =
  flashcardId :: "string option"
  quality :: "real option"

text \<open>A row of the \<open>reviews\<close> table.\<close>

record review =
  review_flashcardId :: string
  review_userId :: string
  review_quality :: int

text \<open>The two tables the route reads and writes.\<close>

record storage =
  flashcards :: "string \<rightharpoonup> flashcard"
  reviews :: "review list"

text \<open>What the route sends: a status with an error message, or the updated row.\<close>

datatype response =
  Error_response nat string
| Flashcard_response flashcard

definition required_error :: response where
  "required_error = Error_response 400 ''Flashcard ID and quality are required''"

definition not_found_error :: response where
  "not_found_error = Error_response 404 ''Flashcard not found''"

definition server_error :: response where
  "server_error = Error_response 500 ''Failed to review flashcard''"

text \<open>
  When \<open>storage.updateFlashcard\<close> goes through: the new \<open>nextReview\<close> and \<open>lastReviewed\<close>
  are valid dates (an invalid one throws when it is converted for the driver) and the new
  interval and repetition count fit their columns.
\<close>

definition update_accepted :: "int \<Rightarrow> int \<Rightarrow> int \<Rightarrow> repetition_state \<Rightarrow> bool" where
  "update_accepted now now' offset_change s =
     (next_review_date now (interval s) offset_change \<noteq> None \<and> valid_date now' \<and>
      int32 (interval s) \<and> int32 (repetitions s))"

text \<open>
  \<open>storage.updateFlashcard(flashcardId, { easeFactor, interval, repetitions, nextReview,
  lastReviewed })\<close> on the row \<open>fc\<close> found before: the updated row and the new storage, or
  \<open>None\<close> when the call throws.
\<close>

definition updateFlashcard ::
  "string \<Rightarrow> flashcard \<Rightarrow> repetition_state \<Rightarrow> int option \<Rightarrow> int \<Rightarrow> storage \<Rightarrow>
     (flashcard \<times> storage) option" where
  "updateFlashcard fid fc s nextReview_value lastReviewed_value st =
     (case nextReview_value of
        None \<Rightarrow> None
      | Some t \<Rightarrow>
          if valid_date lastReviewed_value \<and> int32 (interval s) \<and> int32 (repetitions s)
          then
            (let updated = fc\<lparr>easeFactor := easeFactor s,
                              interval := interval s,
                              repetitions := repetitions s,
                              nextReview := t,
                              lastReviewed := Some lastReviewed_value\<rparr>
             in Some (updated, st\<lparr>flashcards := (flashcards st)(fid \<mapsto> updated)\<rparr>))
          else None)"

text \<open>
  \<open>storage.createReview({ flashcardId, userId, quality: q })\<close>: the insert goes through
  when \<open>q\<close> is a whole number that fits the \<open>integer\<close> column, and throws otherwise.
\<close>

definition createReview :: "string \<Rightarrow> string \<Rightarrow> real \<Rightarrow> storage \<Rightarrow> storage option" where
  "createReview fid uid q st =
     (if of_int \<lfloor>q\<rfloor> = q \<and> int32 \<lfloor>q\<rfloor>
      then Some (st\<lparr>reviews := reviews st @
                   [\<lparr>review_flashcardId = fid, review_userId = uid,
                     review_quality = \<lfloor>q\<rfloor>\<rparr>]\<rparr>)
      else None)"

text \<open>
  The handler of \<open>POST /api/flashcards/review\<close>, as a function of the demo user's id, the
  two clock readings (\<open>now\<close> for \<open>nextReview\<close>, \<open>now'\<close> for \<open>lastReviewed\<close>), the offset
  change of the local calendar, the body and the storage. \<open>!flashcardId\<close> holds for an
  absent and for an empty id; \<open>quality === undefined\<close> for an absent quality. These two
  checks and the lookup are the only ones the handler makes. The card is updated first and
  the review row inserted second; either call may throw, and the \<open>catch\<close> answers 500 with
  whatever was written before.
\<close>

definition review_route ::
  "string \<Rightarrow> int \<Rightarrow> int \<Rightarrow> int \<Rightarrow> review_body \<Rightarrow> storage \<Rightarrow> response \<times> storage" where
  "review_route demo_user_id now now' offset_change body st =
     (case flashcardId body of
        None \<Rightarrow> (required_error, st)
      | Some fid \<Rightarrow>
          if fid = [] then (required_error, st)
          else
            (case quality body of
               None \<Rightarrow> (required_error, st)
             | Some quality_value \<Rightarrow>
                 (case flashcards st fid of
                    None \<Rightarrow> (not_found_error, st)
                  | Some fc \<Rightarrow>
                      let q = quality_value;
                          s = sm2 (schedule_of fc) q;
                          nextReview_value = next_review_date now (interval s) offset_change
                      in (case updateFlashcard fid fc s nextReview_value now' st of
                            None \<Rightarrow> (server_error, st)
                          | Some (updated, st1) \<Rightarrow>
                              (case createReview fid demo_user_id q st1 of
                                 None \<Rightarrow> (server_error, st1)
                               | Some st2 \<Rightarrow> (Flashcard_response updated, st2))))))"

section \<open>Cosine similarity\<close>

text \<open>
  The loop of \<open>cosineSimilarity\<close>: index \<open>i\<close> runs up to \<open>a.length\<close>, the three
  accumulators are \<open>dotProduct\<close>, \<open>normA\<close> and \<open>normB\<close>. Here the arithmetic is exact;
  the next section has the same loop in double arithmetic. The ranking is stated with the
  exact scores: it uses a score only to compare it, with another score and with 0.3.
\<close>

function cosine_loop ::
  "real list \<Rightarrow> real list \<Rightarrow> nat \<Rightarrow> real \<times> real \<times> real \<Rightarrow> real \<times> real \<times> real" where
  "cosine_loop a b i (dotProduct, normA, normB) =
     (if i < length a
      then cosine_loop a b (i + 1)
             (dotProduct + a ! i * b ! i, normA + a ! i * a ! i, normB + b ! i * b ! i)
      else (dotProduct, normA, normB))"
  by pat_completeness auto
termination
  by (relation "measure (\<lambda>(a, b, i, acc). length a - i)") auto

declare cosine_loop.simps [simp del]

definition cosineSimilarity :: "real list \<Rightarrow> real list \<Rightarrow> real" where
  "cosineSimilarity a b =
     (if length a \<noteq> length b then 0
      else
        (let (dotProduct, normA, normB) = cosine_loop a b 0 (0, 0, 0)
         in if normA = 0 \<or> normB = 0 then 0
            else dotProduct / (sqrt normA * sqrt normB)))"

section \<open>Cosine similarity in double arithmetic\<close>

text \<open>
  A JavaScript number: a finite double, one of the two infinities, or NaN. The sign of a
  zero is not kept; \<open>cosineSimilarity\<close> never divides by a zero, which is where the sign
  would show.
\<close>

datatype js_number = Num real | PosInf | NegInf | NaN

text \<open>
  Rounding to the nearest double, ties to even: the spacing of the doubles around \<open>x\<close> is
  \<open>quantum x\<close> (that of the smallest binade, \<open>2 ^ -1074\<close>, for subnormal magnitudes),
  and a result of magnitude \<open>2 ^ 1024\<close> or more is an infinity.
\<close>

definition quantum :: "real \<Rightarrow> real" where
  "quantum x = 2 powi (max (binade x) (- 1022) - 52)"

definition js_round :: "real \<Rightarrow> js_number" where
  "js_round x =
     (if x = 0 then Num 0
      else
        (let r = of_int (round_even (x / quantum x)) * quantum x
         in if 2 powi 1024 \<le> r then PosInf
            else if r \<le> - (2 powi 1024) then NegInf
            else Num r))"

definition is_negative :: "js_number \<Rightarrow> bool" where
  "is_negative a = (case a of Num x \<Rightarrow> x < 0 | NegInf \<Rightarrow> True | _ \<Rightarrow> False)"

text \<open>The operators \<open>+\<close>, \<open>*\<close>, \<open>/\<close> and \<open>Math.sqrt\<close> on numbers.\<close>

fun js_plus :: "js_number \<Rightarrow> js_number \<Rightarrow> js_number" where
  "js_plus (Num x) (Num y) = js_round (x + y)"
| "js_plus NaN b = NaN"
| "js_plus a NaN = NaN"
| "js_plus PosInf NegInf = NaN"
| "js_plus NegInf PosInf = NaN"
| "js_plus PosInf b = PosInf"
| "js_plus a PosInf = PosInf"
| "js_plus NegInf b = NegInf"
| "js_plus a NegInf = NegInf"

fun js_mult :: "js_number \<Rightarrow> js_number \<Rightarrow> js_number" where
  "js_mult (Num x) (Num y) = js_round (x * y)"
| "js_mult NaN b = NaN"
| "js_mult a NaN = NaN"
| "js_mult a b =
     (if a = Num 0 \<or> b = Num 0 then NaN
      else if is_negative a = is_negative b then PosInf else NegInf)"

fun js_div :: "js_number \<Rightarrow> js_number \<Rightarrow> js_number" where
  "js_div (Num x) (Num y) =
     (if y = 0 then (if x = 0 then NaN else if 0 < x then PosInf else NegInf)
      else js_round (x / y))"
| "js_div NaN b = NaN"
| "js_div a NaN = NaN"
| "js_div (Num x) b = Num 0"
| "js_div a (Num y) = (if is_negative a = (y < 0) then PosInf else NegInf)"
| "js_div a b = NaN"

fun js_sqrt :: "js_number \<Rightarrow> js_number" where
  "js_sqrt (Num x) = (if x < 0 then NaN else js_round (sqrt x))"
| "js_sqrt PosInf = PosInf"
| "js_sqrt a = NaN"

text \<open>
  \<open>cosineSimilarity\<close> as the code runs it: the same loop and the same tests, on numbers.
\<close>

function js_cosine_loop ::
  "js_number list \<Rightarrow> js_number list \<Rightarrow> nat \<Rightarrow> js_number \<times> js_number \<times> js_number \<Rightarrow>
     js_number \<times> js_number \<times> js_number" where
  "js_cosine_loop a b i (dotProduct, normA, normB) =
     (if i < length a
      then js_cosine_loop a b (i + 1)
             (js_plus dotProduct (js_mult (a ! i) (b ! i)),
              js_plus normA (js_mult (a ! i) (a ! i)),
              js_plus normB (js_mult (b ! i) (b ! i)))
      else (dotProduct, normA, normB))"
  by pat_completeness auto
termination
  by (relation "measure (\<lambda>(a, b, i, acc). length a - i)") auto

declare js_cosine_loop.simps [simp del]

definition js_cosineSimilarity :: "js_number list \<Rightarrow> js_number list \<Rightarrow> js_number" where
  "js_cosineSimilarity a b =
     (if length a \<noteq> length b then Num 0
      else
        (let (dotProduct, normA, normB) = js_cosine_loop a b 0 (Num 0, Num 0, Num 0)
         in if normA = Num 0 \<or> normB = Num 0 then Num 0
            else js_div dotProduct (js_mult (js_sqrt normA) (js_sqrt normB))))"

text \<open>
  The dot product and the sum of squares of number vectors, summed from the left as the
  loop does.
\<close>

definition js_dot :: "js_number list \<Rightarrow> js_number list \<Rightarrow> js_number" where
  "js_dot a b = foldl (\<lambda>acc (x, y). js_plus acc (js_mult x y)) (Num 0) (zip a b)"

definition js_sum_squares :: "js_number list \<Rightarrow> js_number" where
  "js_sum_squares a = foldl (\<lambda>acc x. js_plus acc (js_mult x x)) (Num 0) a"

text \<open>
  The cosine of two real vectors as mathematics has it: the dot product over the product
  of the Euclidean norms.
\<close>

definition dot :: "real list \<Rightarrow> real list \<Rightarrow> real" where
  "dot a b = sum_list (map2 (*) a b)"

definition euclid_norm :: "real list \<Rightarrow> real" where
  "euclid_norm a = sqrt (sum_list (map (\<lambda>x. x * x) a))"

definition cosine :: "real list \<Rightarrow> real list \<Rightarrow> real" where
  "cosine a b = dot a b / (euclid_norm a * euclid_norm b)"

section \<open>Ranking notes by similarity\<close>

text \<open>
  \<open>Array.prototype.sort(compareFn)\<close>: the language requires a stable sort and leaves the
  algorithm open. It is modelled as insertion sort driven by the comparator, an element
  going before the first one it does not compare greater than.
\<close>

fun insert_by :: "('a \<Rightarrow> 'a \<Rightarrow> real) \<Rightarrow> 'a \<Rightarrow> 'a list \<Rightarrow> 'a list" where
  "insert_by compareFn x [] = [x]"
| "insert_by compareFn x (y # ys) =
     (if compareFn x y \<le> 0 then x # y # ys else y # insert_by compareFn x ys)"

definition sort_by :: "('a \<Rightarrow> 'a \<Rightarrow> real) \<Rightarrow> 'a list \<Rightarrow> 'a list" where
  "sort_by compareFn xs = foldr (insert_by compareFn) xs []"

text \<open>
  A row of the \<open>notes\<close> table (type \<open>Note\<close> of the schema); the \<open>embedding\<close> column is
  nullable. The scored note is \<open>{ ...note, similarity }\<close> of the chat route.
\<close>

record note_row =
  note_id :: string
  title :: string
  content :: string
  tags :: "string list"
  embedding :: "real list option"

record scored_note = note_row +
  similarity :: real

text \<open>\<open>note.embedding && note.embedding.length > 0\<close>\<close>

definition has_embedding :: "note_row \<Rightarrow> bool" where
  "has_embedding n = (case embedding n of None \<Rightarrow> False | Some e \<Rightarrow> length e > 0)"

text \<open>
  \<open>note.embedding as number[]\<close>: the cast is applied behind the filter only, where the
  column is not null.
\<close>

definition embedding_of :: "note_row \<Rightarrow> real list" where
  "embedding_of n = (case embedding n of None \<Rightarrow> [] | Some e \<Rightarrow> e)"

text \<open>\<open>(a, b) => b.similarity - a.similarity\<close>\<close>

definition by_similarity_desc :: "scored_note \<Rightarrow> scored_note \<Rightarrow> real" where
  "by_similarity_desc a b = similarity b - similarity a"

subsection \<open>The chat route\<close>

definition score_note :: "real list \<Rightarrow> note_row \<Rightarrow> scored_note" where
  "score_note queryEmbedding n =
     \<lparr>note_id = note_id n, title = title n, content = content n, tags = tags n,
      embedding = embedding n,
      similarity = cosineSimilarity queryEmbedding (embedding_of n)\<rparr>"

text \<open>The notes that reach \<open>.sort\<close> in the chat route, in the order of \<open>userNotes\<close>.\<close>

definition chat_candidates :: "real list \<Rightarrow> note_row list \<Rightarrow> scored_note list" where
  "chat_candidates queryEmbedding userNotes =
     map (score_note queryEmbedding) (filter has_embedding userNotes)"

definition relevantNotes :: "real list \<Rightarrow> note_row list \<Rightarrow> scored_note list" where
  "relevantNotes queryEmbedding userNotes =
     take 3 (sort_by by_similarity_desc (chat_candidates queryEmbedding userNotes))"

text \<open>
  The notes written into \<open>semanticContext\<close>, one line each: all of \<open>relevantNotes\<close> when
  there is one and the first has a similarity above 0.3, none otherwise.
\<close>

definition context_notes :: "real list \<Rightarrow> note_row list \<Rightarrow> scored_note list" where
  "context_notes queryEmbedding userNotes =
     (case relevantNotes queryEmbedding userNotes of
        [] \<Rightarrow> []
      | best # others \<Rightarrow> if similarity best > 0.3 then best # others else [])"

subsection \<open>The search route\<close>

text \<open>The result objects of \<open>POST /api/search\<close>; \<open>type\<close> is always \<open>"note"\<close>.\<close>

record search_result =
  result_id :: string
  result_type :: string
  result_title :: string
  result_content :: string
  result_similarity :: real
  result_tags :: "string list"

definition to_result :: "real list \<Rightarrow> note_row \<Rightarrow> search_result" where
  "to_result queryEmbedding n =
     \<lparr>result_id = note_id n, result_type = ''note'', result_title = title n,
      result_content = content n,
      result_similarity = cosineSimilarity queryEmbedding (embedding_of n),
      result_tags = tags n\<rparr>"

definition by_result_similarity_desc :: "search_result \<Rightarrow> search_result \<Rightarrow> real" where
  "by_result_similarity_desc a b = result_similarity b - result_similarity a"

text \<open>The results that reach \<open>.sort\<close> in the search route, in the order of \<open>notes\<close>.\<close>

definition search_candidates :: "real list \<Rightarrow> note_row list \<Rightarrow> search_result list" where
  "search_candidates queryEmbedding notes =
     filter (\<lambda>result. result_similarity result > 0.3)
       (map (to_result queryEmbedding) (filter has_embedding notes))"

definition search_results :: "real list \<Rightarrow> note_row list \<Rightarrow> search_result list" where
  "search_results queryEmbedding notes =
     take 10 (sort_by by_result_similarity_desc (search_candidates queryEmbedding notes))"

section \<open>Review histories and example data\<close>

text \<open>A card's state after a sequence of reviews, oldest first.\<close>

definition review_all :: "repetition_state \<Rightarrow> real list \<Rightarrow> repetition_state" where
  "review_all s qs = foldl sm2 s qs"

text \<open>A freshly created flashcard and a storage holding just that card.\<close>

definition example_card :: flashcard where
  "example_card =
     \<lparr>easeFactor = 2.5, interval = 0, repetitions = 0,
      card_id = ''c1'', nextReview = 0, lastReviewed = None\<rparr>"

definition example_storage :: storage where
  "example_storage = \<lparr>flashcards = [''c1'' \<mapsto> example_card], reviews = []\<rparr>"



text \<open>Two doubles whose squares are out of the range of doubles.\<close>

definition tiny_entry :: real where
  "tiny_entry = 2 powi (- 600)"

definition huge_entry :: real where
  "huge_entry = 2 powi 600"

text \<open>
  Four notes: two with unit embeddings, one with an empty embedding, one with none.
\<close>

definition note_a :: note_row where
  "note_a = \<lparr>note_id = ''A'', title = ''a'', content = ''first'', tags = [],
              embedding = Some [1, 0]\<rparr>"

definition note_b :: note_row where
  "note_b = \<lparr>note_id = ''B'', title = ''b'', content = ''second'', tags = [],
              embedding = Some [0, 1]\<rparr>"

definition note_c :: note_row where
  "note_c = \<lparr>note_id = ''C'', title = ''c'', content = ''third'', tags = [],
              embedding = Some []\<rparr>"

definition note_d :: note_row where
  "note_d = \<lparr>note_id = ''D'', title = ''d'', content = ''fourth'', tags = [],
              embedding = None\<rparr>"

definition example_notes :: "note_row list" where
  "example_notes = [note_b, note_c, note_a, note_d]"

section \<open>Properties of the double rounding\<close>

lemma two_powr_int: "(2::real) powr real_of_int k = 2 powi k"
  by (simp add: powr_real_of_int')

lemma binade_bounds:
  assumes "x \<noteq> 0"
  shows "2 powi binade x \<le> \<bar>x\<bar>" and "\<bar>x\<bar> < 2 powi (binade x + 1)"
proof -
  have "0 < \<bar>x\<bar>" using assms by simp
  then have "2 powr real_of_int (binade x) \<le> \<bar>x\<bar> \<and> \<bar>x\<bar> < 2 powr real_of_int (binade x + 1)"
    using floor_log_eq_powr_iff [of "\<bar>x\<bar>" 2 "binade x"] by (simp add: binade_def)
  then show "2 powi binade x \<le> \<bar>x\<bar>" and "\<bar>x\<bar> < 2 powi (binade x + 1)"
    unfolding two_powr_int by blast+
qed

lemma binade_eq:
  assumes "2 powi n \<le> \<bar>x\<bar>" and "\<bar>x\<bar> < 2 powi (n + 1)"
  shows "binade x = n"
proof -
  have "0 < (2::real) powi n" by (simp add: zero_less_power_int)
  then have pos: "0 < \<bar>x\<bar>" using assms(1) by linarith
  have "2 powr real_of_int n \<le> \<bar>x\<bar> \<and> \<bar>x\<bar> < 2 powr real_of_int (n + 1)"
    unfolding two_powr_int using assms by blast
  then have "\<lfloor>log 2 \<bar>x\<bar>\<rfloor> = n"
    using floor_log_eq_powr_iff [OF pos, of 2 n] by linarith
  then show ?thesis by (simp add: binade_def)
qed

text \<open>How a number whose binade is known is rounded; this is what evaluates \<open>to_double\<close>.\<close>

lemma to_double_binade:
  assumes "2 powi n \<le> \<bar>x\<bar>" and "\<bar>x\<bar> < 2 powi (n + 1)"
  shows "to_double x = of_int (round_even (x / 2 powi (n - 52))) * 2 powi (n - 52)"
proof -
  have "0 < (2::real) powi n" by (simp add: zero_less_power_int)
  then have "0 < \<bar>x\<bar>" using assms(1) by linarith
  then have "x \<noteq> 0" by simp
  then show ?thesis by (simp add: to_double_def binade_eq [OF assms])
qed




text \<open>Some doubles and products, evaluated.\<close>

lemma to_double_6: "to_double 6 = 6"
  by (subst to_double_binade [where n = 2]) (simp_all add: round_even_def)

lemma to_double_15: "to_double 15 = 15"
  by (subst to_double_binade [where n = 3]) (simp_all add: round_even_def)


lemma to_double_5_2: "to_double (5 / 2) = 5 / 2"
  by (subst to_double_binade [where n = 1]) (simp_all add: round_even_def)


lemma six_times_2_5: "js_times 6 (5 / 2) = 15"
  unfolding js_times_def to_double_6 to_double_5_2 by (simp add: to_double_15)

lemma to_double_2: "to_double 2 = 2"
  by (subst to_double_binade [where n = 1]) (simp_all add: round_even_def)

lemma to_double_12: "to_double 12 = 12"
  by (subst to_double_binade [where n = 3]) (simp_all add: round_even_def)

lemma to_double_25: "to_double 25 = 25"
  by (subst to_double_binade [where n = 4]) (simp_all add: round_even_def)

lemma to_double_55: "to_double 55 = 55"
  by (subst to_double_binade [where n = 5]) (simp_all add: round_even_def)

lemma to_double_21_10: "to_double (21 / 10) = 4728779608739021 / 2251799813685248"
  by (subst to_double_binade [where n = 1]) (simp_all add: round_even_def)

lemma to_double_11_5: "to_double (11 / 5) = 2476979795053773 / 1125899906842624"
  by (subst to_double_binade [where n = 1]) (simp_all add: round_even_def)

lemma to_double_23_10: "to_double (23 / 10) = 2589569785738035 / 1125899906842624"
  by (subst to_double_binade [where n = 1]) (simp_all add: round_even_def)

lemma round_6_times_2: "round (js_times 6 2) = 12"
  unfolding js_times_def to_double_6 to_double_2
  by (simp add: to_double_12)

lemma round_12_times_21_10: "round (js_times 12 (21 / 10)) = 25"
  unfolding js_times_def to_double_12 to_double_21_10
  by (subst to_double_binade [where n = 4]) (simp_all add: round_even_def round_def)

lemma round_25_times_11_5: "round (js_times 25 (11 / 5)) = 55"
  unfolding js_times_def to_double_25 to_double_11_5
  by (subst to_double_binade [where n = 5]) (simp_all add: round_even_def round_def)

lemma round_55_times_23_10: "round (js_times 55 (23 / 10)) = 126"
  unfolding js_times_def to_double_55 to_double_23_10
  by (subst to_double_binade [where n = 6]) (simp_all add: round_even_def round_def)


section \<open>Properties of the transition\<close>

lemma sm2_easeFactor: "easeFactor (sm2 s q) = max 1.3 (easeFactor s + ease_delta q)"
  by (simp add: sm2_def Let_def split: prod.splits)

lemma sm2_interval:
  "interval (sm2 s q) =
     (if q \<ge> 3 then
        (if repetitions s = 0 then 1
         else if repetitions s = 1 then 6
         else round (js_times (real_of_int (interval s)) (easeFactor s)))
      else 1)"
  by (simp add: sm2_def Let_def split: prod.splits)

lemma sm2_repetitions:
  "repetitions (sm2 s q) = (if q \<ge> 3 then repetitions s + 1 else 0)"
  by (simp add: sm2_def Let_def split: prod.splits)

lemma ease_delta_values:
  "ease_delta 0 = -0.8" "ease_delta 1 = -0.54" "ease_delta 2 = -0.32"
  "ease_delta 3 = -0.14" "ease_delta 4 = 0" "ease_delta 5 = 0.1"
  by (simp_all add: ease_delta_def)

lemma ease_delta_mono:
  assumes "q1 \<le> q2" and "q2 \<le> 5"
  shows "ease_delta q1 \<le> ease_delta q2"
proof -
  have "ease_delta q2 - ease_delta q1 = (q2 - q1) * (0.28 - 0.02 * (q1 + q2))"
    unfolding ease_delta_def by (simp add: field_simps)
  moreover have "0 \<le> (q2 - q1) * (0.28 - 0.02 * (q1 + q2))"
    using assms by (intro mult_nonneg_nonneg) auto
  ultimately show ?thesis by linarith
qed

lemma two_good_reviews:
  "sm2 (sm2 default_state 4) 4 = \<lparr>easeFactor = 2.5, interval = 6, repetitions = 2\<rparr>"
  by (simp add: sm2_def default_state_def ease_delta_values)

lemma third_good_review:
  "sm2 \<lparr>easeFactor = 5 / 2, interval = 6, repetitions = 2\<rparr> 5 =
     \<lparr>easeFactor = 13 / 5, interval = 15, repetitions = 3\<rparr>"
  by (simp add: sm2_def ease_delta_values six_times_2_5)

text \<open>
  Eight reviews with the qualities 5, 0, 5, 5, 5, 5, 5, 3: the last one multiplies the
  interval 55 by the ease factor 2.3, whose double lies below 2.3, and stores 126.
\<close>

lemma eight_reviews:
  "review_all default_state [5, 0, 5, 5, 5, 5, 5, 3] =
     \<lparr>easeFactor = 2.16, interval = 126, repetitions = 6\<rparr>"
  by (simp add: review_all_def sm2_def default_state_def ease_delta_values
      round_6_times_2 round_12_times_21_10 round_25_times_11_5 round_55_times_23_10)

text \<open>
  C4: from a state whose ease factor is at least 1.3, a review with a quality in
  0..5 gives a state whose ease factor is at least 1.3, and that ease factor is
  \<open>max(1.3, easeFactor + (0.1 - (5 - quality) * (0.08 + (5 - quality) * 0.02)))\<close>.
\<close>

theorem sm2_easeFactor_floor:
  assumes "easeFactor s \<ge> 1.3" and "q \<in> qualities"
  shows "easeFactor (sm2 s q) \<ge> 1.3 \<and>
         easeFactor (sm2 s q) =
           max 1.3 (easeFactor s + (0.1 - (5 - q) * (0.08 + (5 - q) * 0.02)))"
  by (simp add: sm2_easeFactor ease_delta_def)

theorem sm2_easeFactor_floor_witness:
  "easeFactor default_state \<ge> 1.3 \<and> (0::real) \<in> qualities \<and>
   easeFactor (sm2 default_state 0) \<ge> 1.3 \<and>
   easeFactor (sm2 default_state 0) = 1.7"
  using sm2_easeFactor_floor [of default_state 0]
  by (simp add: default_state_def qualities_def)

text \<open>
  C5: whatever the prior state, a review with quality 0, 1 or 2 sets the repetition count
  to 0 and the interval to 1. The ease factor is not reset: it is the usual
  \<open>max(1.3, easeFactor + adjustment)\<close>, where the adjustment is negative, so the new ease
  factor is the old one lowered and floored at 1.3.
\<close>

theorem sm2_lapse:
  assumes "q \<in> {0, 1, 2}"
  shows "repetitions (sm2 s q) = 0 \<and> interval (sm2 s q) = 1 \<and>
         easeFactor (sm2 s q) =
           max 1.3 (easeFactor s + (0.1 - (5 - q) * (0.08 + (5 - q) * 0.02))) \<and>
         easeFactor s + (0.1 - (5 - q) * (0.08 + (5 - q) * 0.02)) < easeFactor s \<and>
         easeFactor (sm2 s q) \<le> max 1.3 (easeFactor s)"
  using assms
  by (auto simp add: sm2_easeFactor sm2_interval sm2_repetitions ease_delta_def)

theorem sm2_lapse_witness:
  "(1::real) \<in> {0, 1, 2} \<and>
   sm2 \<lparr>easeFactor = 2.5, interval = 20, repetitions = 3\<rparr> 1 =
     \<lparr>easeFactor = 1.96, interval = 1, repetitions = 0\<rparr>"
  using sm2_lapse [of 1 "\<lparr>easeFactor = 2.5, interval = 20, repetitions = 3\<rparr>"]
  by (simp add: sm2_def ease_delta_values)



text \<open>
  C10: for a fixed prior state with ease factor at least 1.3, the ease factor after the
  review does not decrease when the quality, taken from 0..5, increases.
\<close>

theorem sm2_easeFactor_mono:
  assumes "easeFactor s \<ge> 1.3" and "q1 \<in> qualities" and "q2 \<in> qualities" and "q1 \<le> q2"
  shows "easeFactor (sm2 s q1) \<le> easeFactor (sm2 s q2)"
proof -
  have "q2 \<le> 5" using assms(3) by (auto simp add: qualities_def)
  with assms(4) have "ease_delta q1 \<le> ease_delta q2" by (rule ease_delta_mono)
  then show ?thesis by (simp add: sm2_easeFactor max_def)
qed

theorem sm2_easeFactor_mono_witness:
  "easeFactor default_state \<ge> 1.3 \<and> (2::real) \<in> qualities \<and> (5::real) \<in> qualities \<and>
   (2::real) \<le> 5 \<and>
   easeFactor (sm2 default_state 2) = 2.18 \<and> easeFactor (sm2 default_state 5) = 2.6 \<and>
   easeFactor (sm2 default_state 2) \<le> easeFactor (sm2 default_state 5)"
  using sm2_easeFactor_mono [of default_state 2 5]
  by (simp add: default_state_def qualities_def sm2_easeFactor ease_delta_values)

text \<open>
  The scenario of C3 on the code: after two reviews with quality 4 the state is
  \<open>{easeFactor: 2.5, interval: 6, repetitions: 2}\<close>; the review with quality 5 then stores
  interval 15, while 6 times the new ease factor 2.6 rounds to 16.
\<close>

theorem third_review_counterexample:
  "interval (sm2 (sm2 (sm2 default_state 4) 4) 5) = 15 \<and>
   round (6 * easeFactor (sm2 (sm2 (sm2 default_state 4) 4) 5)) = 16 \<and>
   interval (sm2 (sm2 (sm2 default_state 4) 4) 5) \<noteq>
     round (6 * easeFactor (sm2 (sm2 (sm2 default_state 4) 4) 5))"
  by (simp add: two_good_reviews third_good_review round_def)

text \<open>
  C3, as the code has it: for a card that starts at the default state and is reviewed
  with quality 4, 4 and then 5, the third review yields
  \<open>interval = round(6 * easeFactor)\<close> where \<open>easeFactor\<close> is the ease factor before the
  third review's update (2.5), that is 15; the ease factor after the update is 2.6.
\<close>

theorem third_review_interval:
  "interval (sm2 (sm2 default_state 4) 4) = 6 \<and>
   easeFactor (sm2 (sm2 default_state 4) 4) = 2.5 \<and>
   interval (sm2 (sm2 (sm2 default_state 4) 4) 5) =
     round (6 * easeFactor (sm2 (sm2 default_state 4) 4)) \<and>
   interval (sm2 (sm2 (sm2 default_state 4) 4) 5) = 15 \<and>
   easeFactor (sm2 (sm2 (sm2 default_state 4) 4) 5) = 2.6"
  by (simp add: two_good_reviews third_good_review round_def)

section \<open>Properties of the review route\<close>


lemma next_review_date_Some:
  assumes "next_review_date now days offset_change \<noteq> None"
  shows "next_review_date now days offset_change =
           Some (now + days * ms_per_day + offset_change)"
  using assms by (simp add: next_review_date_def Let_def split: if_splits)



text \<open>
  When the update goes through and the insert of the review row throws, the route answers
  500 with the card rewritten and no review row.
\<close>

lemma review_route_insert_fails:
  assumes "fid \<noteq> []" and "flashcards st fid = Some fc"
    and "update_accepted now now' oc (sm2 (schedule_of fc) q)"
    and "\<not> (of_int \<lfloor>q\<rfloor> = q \<and> int32 \<lfloor>q\<rfloor>)"
  shows "review_route uid now now' oc \<lparr>flashcardId = Some fid, quality = Some q\<rparr> st =
           (server_error,
            st\<lparr>flashcards := (flashcards st)(fid \<mapsto>
                  fc\<lparr>easeFactor := easeFactor (sm2 (schedule_of fc) q),
                      interval := interval (sm2 (schedule_of fc) q),
                      repetitions := repetitions (sm2 (schedule_of fc) q),
                      nextReview :=
                        now + interval (sm2 (schedule_of fc) q) * ms_per_day + oc,
                      lastReviewed := Some now'\<rparr>)\<rparr>)"
proof -
  have d: "next_review_date now (interval (sm2 (schedule_of fc) q)) oc =
             Some (now + interval (sm2 (schedule_of fc) q) * ms_per_day + oc)"
    using assms(3) by (intro next_review_date_Some) (simp add: update_accepted_def)
  show ?thesis
    using assms d
    by (auto simp add: review_route_def Let_def updateFlashcard_def createReview_def
        update_accepted_def)
qed

lemma review_route_half_quality:
  "review_route ''demo'' 1000 1000 0 \<lparr>flashcardId = Some ''c1'', quality = Some 2.5\<rparr>
     example_storage =
     (server_error,
      \<lparr>flashcards = [''c1'' \<mapsto>
         \<lparr>easeFactor = 2.275, interval = 1, repetitions = 0,
          card_id = ''c1'', nextReview = 86401000, lastReviewed = Some 1000\<rparr>],
       reviews = []\<rparr>)"
  by (simp add: review_route_def example_storage_def example_card_def Let_def
      sm2_def schedule_of_def ease_delta_def next_review_date_def ms_per_day_def
      updateFlashcard_def createReview_def valid_date_def int32_def)



lemma review_route_rejects_unchanged:
  assumes "fst (review_route uid now now' oc body st) = required_error \<or>
           fst (review_route uid now now' oc body st) = not_found_error"
  shows "snd (review_route uid now now' oc body st) = st"
  using assms
  by (auto simp add: review_route_def Let_def required_error_def not_found_error_def
      server_error_def split: option.splits if_splits)






section \<open>Intervals along a review history\<close>












section \<open>Properties of the similarity\<close>

subsection \<open>The loop in double arithmetic\<close>

lemma js_cosine_loop_folds:
  assumes "length a = length b" and "i \<le> length a"
  shows "js_cosine_loop a b i (d, na, nb) =
     (foldl (\<lambda>acc (x, y). js_plus acc (js_mult x y)) d (drop i (zip a b)),
      foldl (\<lambda>acc x. js_plus acc (js_mult x x)) na (drop i a),
      foldl (\<lambda>acc x. js_plus acc (js_mult x x)) nb (drop i b))"
  using assms
proof (induction a b i "(d, na, nb)" arbitrary: d na nb rule: js_cosine_loop.induct)
  case (1 a b i d na nb)
  show ?case
  proof (cases "i < length a")
    case True
    have za: "drop i a = a ! i # drop (Suc i) a"
      using True by (simp add: Cons_nth_drop_Suc)
    have zb: "drop i b = b ! i # drop (Suc i) b"
      using True 1(2) by (simp add: Cons_nth_drop_Suc)
    have zz: "drop i (zip a b) = (a ! i, b ! i) # drop (Suc i) (zip a b)"
      using True 1(2) by (simp add: Cons_nth_drop_Suc [symmetric])
    have "js_cosine_loop a b i (d, na, nb) =
        js_cosine_loop a b (i + 1)
          (js_plus d (js_mult (a ! i) (b ! i)), js_plus na (js_mult (a ! i) (a ! i)),
           js_plus nb (js_mult (b ! i) (b ! i)))"
      using True by (subst js_cosine_loop.simps) simp
    also have "\<dots> =
        (foldl (\<lambda>acc (x, y). js_plus acc (js_mult x y)) (js_plus d (js_mult (a ! i) (b ! i)))
           (drop (i + 1) (zip a b)),
         foldl (\<lambda>acc x. js_plus acc (js_mult x x)) (js_plus na (js_mult (a ! i) (a ! i)))
           (drop (i + 1) a),
         foldl (\<lambda>acc x. js_plus acc (js_mult x x)) (js_plus nb (js_mult (b ! i) (b ! i)))
           (drop (i + 1) b))"
      using True 1(2) by (intro 1) simp_all
    finally show ?thesis
      by (simp add: za zb zz)
  next
    case False
    with 1(3) have "i = length a" by simp
    then show ?thesis using 1(2) by (subst js_cosine_loop.simps) simp
  qed
qed

lemma js_cosine_loop_result:
  assumes "length a = length b"
  shows "js_cosine_loop a b 0 (Num 0, Num 0, Num 0) =
           (js_dot a b, js_sum_squares a, js_sum_squares b)"
  using js_cosine_loop_folds [OF assms, of 0] by (simp add: js_dot_def js_sum_squares_def)

lemma js_round_0: "js_round 0 = Num 0"
  by (simp add: js_round_def)

lemma zeros_sum_squares:
  assumes "\<forall>x \<in> set a. x = Num 0"
  shows "foldl (\<lambda>acc x. js_plus acc (js_mult x x)) (Num 0) a = Num 0"
  using assms by (induction a) (simp_all add: js_round_0)

subsection \<open>Evaluating the rounding\<close>

lemma js_round_binade:
  assumes "2 powi n \<le> \<bar>x\<bar>" and "\<bar>x\<bar> < 2 powi (n + 1)"
  shows "js_round x =
     (let q = 2 powi (max n (- 1022) - 52); r = of_int (round_even (x / q)) * q
      in if 2 powi 1024 \<le> r then PosInf
         else if r \<le> - (2 powi 1024) then NegInf
         else Num r)"
proof -
  have "0 < (2::real) powi n" by (simp add: zero_less_power_int)
  then have "0 < \<bar>x\<bar>" using assms(1) by linarith
  then have "x \<noteq> 0" by simp
  then show ?thesis
    by (simp add: js_round_def quantum_def binade_eq [OF assms] Let_def)
qed

lemma js_round_1: "js_round 1 = Num 1"
  by (subst js_round_binade [where n = 0]) (simp_all add: round_even_def Let_def)

lemma tiny_square: "js_round (tiny_entry * tiny_entry) = Num 0"
proof -
  have sq: "tiny_entry * tiny_entry = 2 powi (- 1200)"
    unfolding tiny_entry_def using power_int_add [of "2::real" "- 600" "- 600"] by simp
  show ?thesis
    unfolding sq
    by (subst js_round_binade [where n = "- 1200"])
      (simp_all add: round_even_def Let_def power_int_minus)
qed

lemma tiny_similarity: "js_cosineSimilarity [Num tiny_entry] [Num tiny_entry] = Num 0"
  by (simp add: js_cosineSimilarity_def js_cosine_loop_result js_sum_squares_def js_dot_def
      tiny_square js_round_0)

lemma tiny_cosine: "cosineSimilarity [tiny_entry] [tiny_entry] = 1"
proof -
  have "tiny_entry \<noteq> 0" by (simp add: tiny_entry_def)
  then show ?thesis
    by (simp add: cosineSimilarity_def cosine_loop.simps)
qed


lemma round_even_between:
  assumes "of_int n - 1 / 2 < x" and "x < of_int n + 1 / 2"
  shows "round_even x = n"
proof -
  have "\<lfloor>x\<rfloor> = n \<or> \<lfloor>x\<rfloor> = n - 1"
    using assms by (cases "of_int n \<le> x") (auto intro!: floor_unique)
  then show ?thesis
  proof
    assume f: "\<lfloor>x\<rfloor> = n"
    then show ?thesis using assms by (simp add: round_even_def Let_def)
  next
    assume f: "\<lfloor>x\<rfloor> = n - 1"
    then show ?thesis using assms by (simp add: round_even_def Let_def)
  qed
qed

lemma sqrt_2_bounds:
  "6369051672525772 + 1 / 2 < sqrt 2 * 4503599627370496"
  "sqrt 2 * 4503599627370496 < 6369051672525773 + 1 / 2"
proof -
  have "(12738103345051545 / 9007199254740992)\<^sup>2 < (2::real)"
    by (simp add: power2_eq_square)
  then have "12738103345051545 / 9007199254740992 < sqrt 2"
    by (rule real_less_rsqrt)
  then show "6369051672525772 + 1 / 2 < sqrt 2 * 4503599627370496" by simp
  have "(2::real) < (12738103345051547 / 9007199254740992)\<^sup>2"
    by (simp add: power2_eq_square)
  then have "sqrt 2 < 12738103345051547 / 9007199254740992"
    by (intro real_less_lsqrt) simp_all
  then show "sqrt 2 * 4503599627370496 < 6369051672525773 + 1 / 2" by simp
qed

lemma round_even_sqrt_2: "round_even (sqrt 2 * 4503599627370496) = 6369051672525773"
  using sqrt_2_bounds by (intro round_even_between) simp_all

lemma sqrt_2_range: "1 \<le> sqrt 2" "sqrt 2 < 2"
proof -
  show "1 \<le> sqrt 2" by simp
  show "sqrt 2 < 2" by (intro real_less_lsqrt) simp_all
qed

lemma js_round_sqrt_2: "js_round (sqrt 2) = Num (6369051672525773 / 4503599627370496)"
  using sqrt_2_range
  by (subst js_round_binade [where n = 0])
    (simp_all add: Let_def power_int_minus round_even_sqrt_2)

lemma js_round_2: "js_round 2 = Num 2"
  by (subst js_round_binade [where n = 1]) (simp_all add: round_even_def Let_def)

lemma js_sqrt_2_squared:
  "js_round (40564819207303346393761349247529 / 20282409603651670423947251286016) =
     Num (4503599627370497 / 2251799813685248)"
  by (subst js_round_binade [where n = 1]) (simp_all add: round_even_def Let_def)

lemma js_two_over:
  "js_round (4503599627370496 / 4503599627370497) =
     Num (4503599627370495 / 4503599627370496)"
  by (subst js_round_binade [where n = "- 1"]) (simp_all add: round_even_def Let_def)

lemma ones_similarity:
  "js_cosineSimilarity [Num 1, Num 1] [Num 1, Num 1] =
     Num (4503599627370495 / 4503599627370496)"
  by (simp add: js_cosineSimilarity_def js_cosine_loop_result js_sum_squares_def js_dot_def
      js_round_0 js_round_1 js_round_2 js_round_sqrt_2 js_sqrt_2_squared js_two_over)

lemma huge_square: "js_round (huge_entry * huge_entry) = PosInf"
proof -
  have sq: "huge_entry * huge_entry = 2 powi 1200"
    unfolding huge_entry_def using power_int_add [of "2::real" 600 600] by simp
  show ?thesis
    unfolding sq
    by (subst js_round_binade [where n = 1200]) (simp_all add: round_even_def Let_def)
qed

lemma huge_similarity: "js_cosineSimilarity [Num huge_entry] [Num huge_entry] = NaN"
  by (simp add: js_cosineSimilarity_def js_cosine_loop_result js_sum_squares_def js_dot_def
      huge_square js_round_0)

lemma unit_js_same: "js_cosineSimilarity [Num 1, Num 0] [Num 1, Num 0] = Num 1"
  by (simp add: js_cosineSimilarity_def js_cosine_loop_result js_sum_squares_def js_dot_def
      js_round_0 js_round_1)

lemma zero_js_vector: "js_cosineSimilarity [Num 0, Num 0] [Num 1, Num 0] = Num 0"
  by (simp add: js_cosineSimilarity_def js_cosine_loop_result js_sum_squares_def js_dot_def
      js_round_0 js_round_1)

lemma mismatch_js: "js_cosineSimilarity [Num 1] [Num 1, Num 0] = Num 0"
  by (simp add: js_cosineSimilarity_def)

lemma empty_js: "js_cosineSimilarity [] [] = Num 0"
  by (simp add: js_cosineSimilarity_def js_cosine_loop_result js_sum_squares_def)

lemma zero_js_sum: "js_sum_squares [Num 0, Num 0] = Num 0"
  by (simp add: js_sum_squares_def js_round_0)


subsection \<open>The two roundings agree\<close>

text \<open>Between the exponent limits of doubles, \<open>js_round\<close> is \<open>to_double\<close>.\<close>

lemma binade_normal:
  assumes "2 powi (- 1022) \<le> \<bar>x\<bar>"
  shows "- 1022 \<le> binade x"
proof (rule ccontr)
  assume "\<not> - 1022 \<le> binade x"
  then have "binade x + 1 \<le> - 1022" by simp
  then have "(2::real) powi (binade x + 1) \<le> 2 powi (- 1022)"
    by (intro power_int_increasing) simp_all
  moreover have "0 < (2::real) powi (- 1022)" by (simp add: zero_less_power_int)
  then have "x \<noteq> 0" using assms by auto
  then have "\<bar>x\<bar> < 2 powi (binade x + 1)" by (rule binade_bounds(2))
  ultimately show False using assms by linarith
qed

lemma js_round_to_double:
  assumes "2 powi (- 1022) \<le> \<bar>x\<bar>" and "\<bar>to_double x\<bar> < 2 powi 1024"
  shows "js_round x = Num (to_double x)"
proof -
  have "0 < (2::real) powi (- 1022)" by (simp add: zero_less_power_int)
  then have x0: "x \<noteq> 0" using assms(1) by auto
  have q: "quantum x = 2 powi (binade x - 52)"
    using binade_normal [OF assms(1)] by (simp add: quantum_def max_def)
  have "to_double x = of_int (round_even (x / quantum x)) * quantum x"
    using x0 by (simp add: to_double_def q)
  then show ?thesis
    using x0 assms(2) by (simp add: js_round_def Let_def abs_less_iff)
qed

subsection \<open>Claim on the similarity\<close>

text \<open>
  C8 as stated fails on the code: the one-entry vector \<open>[2 ^ -600]\<close> has the length of
  itself and a nonzero norm, and its cosine with itself is 1; the square of the entry
  underflows to 0, so \<open>normA === 0\<close> holds and the code returns 0.
\<close>

theorem tiny_vector_counterexample:
  "length [Num tiny_entry] = length [Num tiny_entry] \<and>
   euclid_norm [tiny_entry] \<noteq> 0 \<and>
   cosine [tiny_entry] [tiny_entry] = 1 \<and>
   js_cosineSimilarity [Num tiny_entry] [Num tiny_entry] = Num 0"
  using tiny_similarity by (simp add: tiny_entry_def euclid_norm_def cosine_def dot_def)

text \<open>
  C8, as the code has it: \<open>cosineSimilarity\<close> is a total function of its two vectors (the
  loop terminates and there is no failing branch). Its value is exactly 0 when the lengths
  differ or when the sum of squares of either vector, computed in double arithmetic, is 0,
  which is the case of a vector of zeros and of the empty one; otherwise it is
  \<open>dotProduct / (Math.sqrt(normA) * Math.sqrt(normB))\<close> computed in double arithmetic,
  every operation rounded.
\<close>

theorem js_cosineSimilarity_total:
  "js_cosineSimilarity a b =
     (if length a \<noteq> length b \<or> js_sum_squares a = Num 0 \<or> js_sum_squares b = Num 0
      then Num 0
      else js_div (js_dot a b)
             (js_mult (js_sqrt (js_sum_squares a)) (js_sqrt (js_sum_squares b)))) \<and>
   ((\<forall>x \<in> set a. x = Num 0) \<longrightarrow> js_sum_squares a = Num 0) \<and>
   js_sum_squares [] = Num 0"
proof (intro conjI impI)
  show "js_cosineSimilarity a b =
     (if length a \<noteq> length b \<or> js_sum_squares a = Num 0 \<or> js_sum_squares b = Num 0
      then Num 0
      else js_div (js_dot a b)
             (js_mult (js_sqrt (js_sum_squares a)) (js_sqrt (js_sum_squares b))))"
    by (simp add: js_cosineSimilarity_def js_cosine_loop_result)
  show "js_sum_squares [] = Num 0" by (simp add: js_sum_squares_def)
  assume "\<forall>x \<in> set a. x = Num 0"
  then show "js_sum_squares a = Num 0"
    unfolding js_sum_squares_def by (rule zeros_sum_squares)
qed


theorem js_cosineSimilarity_total_witness:
  "js_cosineSimilarity [Num 1, Num 0] [Num 1, Num 0] = Num 1 \<and>
   js_cosineSimilarity [Num 0, Num 0] [Num 1, Num 0] = Num 0 \<and>
   js_cosineSimilarity [Num 1] [Num 1, Num 0] = Num 0 \<and>
   js_cosineSimilarity [] [] = Num 0 \<and>
   set [Num 0, Num 0] = {Num 0} \<and>
   js_sum_squares [Num 0, Num 0] = Num 0"
  using js_cosineSimilarity_total [of "[Num 0, Num 0]" "[Num 1, Num 0]"]
    js_cosineSimilarity_total [of "[]" "[]"]
  by (simp add: unit_js_same zero_js_vector mismatch_js empty_js zero_js_sum)

subsection \<open>Two exact similarities\<close>

lemma unit_vectors_same: "cosineSimilarity [1, 0] [1, 0] = 1"
  by (simp add: cosineSimilarity_def cosine_loop.simps)

lemma unit_vectors_orthogonal: "cosineSimilarity [1, 0] [0, 1] = 0"
  by (simp add: cosineSimilarity_def cosine_loop.simps)

section \<open>Properties of the ranking\<close>

subsection \<open>The comparator sort\<close>

lemma set_insert_by: "set (insert_by c x ys) = insert x (set ys)"
  by (induction ys) auto

lemma sort_by_Nil: "sort_by c [] = []"
  by (simp add: sort_by_def)

lemma sort_by_Cons: "sort_by c (x # xs) = insert_by c x (sort_by c xs)"
  by (simp add: sort_by_def)

lemma set_sort_by: "set (sort_by c xs) = set xs"
  by (induction xs) (simp_all add: sort_by_Nil sort_by_Cons set_insert_by)

lemma sorted_insert_by:
  assumes "\<And>a b. c a b = f b - f a"
    and "sorted_wrt (\<lambda>a b. f b \<le> (f a :: real)) ys"
  shows "sorted_wrt (\<lambda>a b. f b \<le> f a) (insert_by c x ys)"
  using assms(2)
proof (induction ys)
  case Nil
  then show ?case by simp
next
  case (Cons y ys)
  show ?case
  proof (cases "c x y \<le> 0")
    case True
    then have "f y \<le> f x" by (simp add: assms(1))
    with Cons.prems show ?thesis using True by auto
  next
    case False
    then have "f x \<le> f y" by (simp add: assms(1))
    with Cons show ?thesis using False by (auto simp add: set_insert_by)
  qed
qed

lemma sorted_sort_by:
  assumes "\<And>a b. c a b = f b - f a"
  shows "sorted_wrt (\<lambda>a b. f b \<le> (f a :: real)) (sort_by c xs)"
  by (induction xs) (simp_all add: sort_by_Nil sort_by_Cons sorted_insert_by [OF assms])

text \<open>Stability: among the elements of one score, sorting changes nothing.\<close>

lemma filter_insert_by:
  assumes "\<And>a b. c a b = f b - (f a :: real)"
  shows "filter (\<lambda>r. f r = k) (insert_by c x ys) =
           (if f x = k then x # filter (\<lambda>r. f r = k) ys else filter (\<lambda>r. f r = k) ys)"
  by (induction ys) (auto simp add: assms)

lemma filter_sort_by:
  assumes "\<And>a b. c a b = f b - (f a :: real)"
  shows "filter (\<lambda>r. f r = k) (sort_by c xs) = filter (\<lambda>r. f r = k) xs"
  by (induction xs) (simp_all add: sort_by_Nil sort_by_Cons filter_insert_by [OF assms])

lemma prefix_filter_take: "prefix (filter P (take n xs)) (filter P xs)"
proof -
  have "filter P xs = filter P (take n xs) @ filter P (drop n xs)"
    by (metis append_take_drop_id filter_append)
  then show ?thesis by (simp add: prefix_def)
qed

lemma sorted_wrt_take: "sorted_wrt R xs \<Longrightarrow> sorted_wrt R (take n xs)"
  by (metis append_take_drop_id sorted_wrt_append)

subsection \<open>The two call sites\<close>

lemma by_similarity_desc_eq: "by_similarity_desc a b = similarity b - similarity a"
  by (simp add: by_similarity_desc_def)

lemma by_result_similarity_desc_eq:
  "by_result_similarity_desc a b = result_similarity b - result_similarity a"
  by (simp add: by_result_similarity_desc_def)

lemma context_notes_cases:
  "context_notes q ns = [] \<or>
   (context_notes q ns = relevantNotes q ns \<and> relevantNotes q ns \<noteq> [] \<and>
    similarity (hd (relevantNotes q ns)) > 0.3)"
  by (auto simp add: context_notes_def split: list.splits)

lemma chat_candidates_with_score:
  "filter (\<lambda>r. similarity r = k) (chat_candidates q ns) =
     map (score_note q)
       (filter (\<lambda>n. has_embedding n \<and> cosineSimilarity q (embedding_of n) = k) ns)"
  by (induction ns) (auto simp add: chat_candidates_def score_note_def)

lemma search_candidates_with_score:
  "filter (\<lambda>r. result_similarity r = k) (search_candidates q ns) =
     map (to_result q)
       (filter (\<lambda>n. has_embedding n \<and> cosineSimilarity q (embedding_of n) > 0.3 \<and>
                    cosineSimilarity q (embedding_of n) = k) ns)"
  by (induction ns) (auto simp add: search_candidates_def to_result_def)

lemma relevantNotes_sorted:
  "sorted_wrt (\<lambda>a b. similarity b \<le> similarity a) (relevantNotes q ns)"
  unfolding relevantNotes_def
  by (intro sorted_wrt_take sorted_sort_by by_similarity_desc_eq)

lemma relevantNotes_stable:
  "prefix (filter (\<lambda>r. similarity r = k) (relevantNotes q ns))
     (map (score_note q)
        (filter (\<lambda>n. has_embedding n \<and> cosineSimilarity q (embedding_of n) = k) ns))"
proof -
  have "prefix (filter (\<lambda>r. similarity r = k) (relevantNotes q ns))
          (filter (\<lambda>r. similarity r = k)
             (sort_by by_similarity_desc (chat_candidates q ns)))"
    unfolding relevantNotes_def by (rule prefix_filter_take)
  then show ?thesis
    by (simp add: filter_sort_by [OF by_similarity_desc_eq] chat_candidates_with_score)
qed

lemma search_results_sorted:
  "sorted_wrt (\<lambda>a b. result_similarity b \<le> result_similarity a) (search_results q ns)"
  unfolding search_results_def
  by (intro sorted_wrt_take sorted_sort_by by_result_similarity_desc_eq)

lemma search_results_stable:
  "prefix (filter (\<lambda>r. result_similarity r = k) (search_results q ns))
     (map (to_result q)
        (filter (\<lambda>n. has_embedding n \<and> cosineSimilarity q (embedding_of n) > 0.3 \<and>
                     cosineSimilarity q (embedding_of n) = k) ns))"
proof -
  have "prefix (filter (\<lambda>r. result_similarity r = k) (search_results q ns))
          (filter (\<lambda>r. result_similarity r = k)
             (sort_by by_result_similarity_desc (search_candidates q ns)))"
    unfolding search_results_def by (rule prefix_filter_take)
  then show ?thesis
    by (simp add: filter_sort_by [OF by_result_similarity_desc_eq] search_candidates_with_score)
qed

lemma search_results_above:
  "r \<in> set (search_results q ns) \<Longrightarrow> result_similarity r > 0.3"
  unfolding search_results_def search_candidates_def
  by (auto dest!: in_set_takeD simp add: set_sort_by)

subsection \<open>The example notes, ranked against the query \<open>[1, 0]\<close>\<close>

lemma example_scores:
  "chat_candidates [1, 0] example_notes =
     [score_note [1, 0] note_b, score_note [1, 0] note_a]"
  "similarity (score_note [1, 0] note_a) = 1"
  "similarity (score_note [1, 0] note_b) = 0"
  by (simp_all add: chat_candidates_def example_notes_def has_embedding_def score_note_def
      embedding_of_def note_a_def note_b_def note_c_def note_d_def
      unit_vectors_same unit_vectors_orthogonal)

lemma relevant_example:
  "relevantNotes [1, 0] example_notes =
     [score_note [1, 0] note_a, score_note [1, 0] note_b]"
  by (simp add: relevantNotes_def example_scores sort_by_def by_similarity_desc_def)

lemma context_example:
  "context_notes [1, 0] example_notes =
     [score_note [1, 0] note_a, score_note [1, 0] note_b]"
  by (simp add: context_notes_def relevant_example example_scores)

lemma search_example:
  "search_results [1, 0] example_notes = [to_result [1, 0] note_a]"
  by (simp add: search_results_def search_candidates_def example_notes_def has_embedding_def
      to_result_def embedding_of_def note_a_def note_b_def note_c_def note_d_def
      unit_vectors_same unit_vectors_orthogonal sort_by_def)

lemma search_example_score: "result_similarity (to_result [1, 0] note_a) = 1"
  by (simp add: to_result_def embedding_of_def note_a_def unit_vectors_same)

lemma example_zero_scores:
  "filter (\<lambda>n. has_embedding n \<and> cosineSimilarity [1, 0] (embedding_of n) = 0)
     example_notes = [note_b]"
  by (simp add: example_notes_def has_embedding_def embedding_of_def
      note_a_def note_b_def note_c_def note_d_def unit_vectors_same unit_vectors_orthogonal)

subsection \<open>Claims on the ranking\<close>

text \<open>
  C2 as stated fails at the chat call site: with the query \<open>[1, 0]\<close> and the example
  notes, note A scores 1 and note B scores 0; the best score passes the 0.3 test, and both
  notes are written into the context, B with a score that is not above 0.3.
\<close>

theorem context_notes_counterexample:
  "context_notes [1, 0] example_notes =
     [score_note [1, 0] note_a, score_note [1, 0] note_b] \<and>
   similarity (context_notes [1, 0] example_notes ! 1) = 0 \<and>
   \<not> similarity (context_notes [1, 0] example_notes ! 1) > 0.3"
  by (simp add: context_example example_scores)

text \<open>
  C2, as the code has it: for every query vector and candidate collection, the chat call
  site yields at most 3 notes and the search call site at most 10 results. At the search
  call site every returned score is strictly greater than 0.3. At the chat call site only
  the best candidate is compared with 0.3: when notes are written into the context, the
  first of them scores strictly above 0.3, and they are all of the (at most 3)
  best-scoring candidates, whatever the scores of the others.
\<close>

theorem ranking_limits:
  "length (relevantNotes q ns) \<le> 3 \<and>
   length (context_notes q ns) \<le> 3 \<and>
   length (search_results q ns) \<le> 10 \<and>
   (\<forall>r \<in> set (search_results q ns). result_similarity r > 0.3) \<and>
   (context_notes q ns \<noteq> [] \<longrightarrow>
      similarity (hd (context_notes q ns)) > 0.3 \<and>
      context_notes q ns = relevantNotes q ns)"
proof -
  have "length (relevantNotes q ns) \<le> 3" by (simp add: relevantNotes_def)
  moreover from this have "length (context_notes q ns) \<le> 3"
    using context_notes_cases [of q ns] by auto
  moreover have "length (search_results q ns) \<le> 10" by (simp add: search_results_def)
  ultimately show ?thesis
    using context_notes_cases [of q ns] search_results_above [of _ q ns] by auto
qed

theorem ranking_limits_witness:
  "search_results [1, 0] example_notes = [to_result [1, 0] note_a] \<and>
   result_similarity (to_result [1, 0] note_a) = 1 \<and>
   context_notes [1, 0] example_notes \<noteq> [] \<and>
   similarity (hd (context_notes [1, 0] example_notes)) = 1 \<and>
   length (context_notes [1, 0] example_notes) = 2"
  using ranking_limits [of "[1, 0]" example_notes]
  by (simp add: search_example search_example_score context_example relevant_example
      example_scores)

text \<open>
  C7: for every query vector and candidate collection, the notes ranked at the chat call
  site (before and after the 0.3 test on the best one) and the results of the search call
  site are sorted non-increasing by similarity, and for every score \<open>k\<close> the returned
  candidates of score \<open>k\<close> appear in the order they have in the input: they are an initial
  part of the input candidates of that score.
\<close>

theorem ranking_sorted_stable:
  "sorted_wrt (\<lambda>a b. similarity a \<ge> similarity b) (relevantNotes q ns) \<and>
   sorted_wrt (\<lambda>a b. similarity a \<ge> similarity b) (context_notes q ns) \<and>
   prefix (filter (\<lambda>r. similarity r = k) (relevantNotes q ns))
     (map (score_note q)
        (filter (\<lambda>n. has_embedding n \<and> cosineSimilarity q (embedding_of n) = k) ns)) \<and>
   prefix (filter (\<lambda>r. similarity r = k) (context_notes q ns))
     (map (score_note q)
        (filter (\<lambda>n. has_embedding n \<and> cosineSimilarity q (embedding_of n) = k) ns)) \<and>
   sorted_wrt (\<lambda>a b. result_similarity a \<ge> result_similarity b) (search_results q ns) \<and>
   prefix (filter (\<lambda>r. result_similarity r = k) (search_results q ns))
     (map (to_result q)
        (filter (\<lambda>n. has_embedding n \<and> cosineSimilarity q (embedding_of n) > 0.3 \<and>
                     cosineSimilarity q (embedding_of n) = k) ns))"
  using context_notes_cases [of q ns] relevantNotes_sorted [of q ns]
    relevantNotes_stable [of k q ns] search_results_sorted [of q ns]
    search_results_stable [of k q ns]
  by auto

theorem ranking_sorted_stable_witness:
  "context_notes [1, 0] example_notes =
     [score_note [1, 0] note_a, score_note [1, 0] note_b] \<and>
   similarity (score_note [1, 0] note_a) \<ge> similarity (score_note [1, 0] note_b) \<and>
   filter (\<lambda>r. similarity r = 0) (context_notes [1, 0] example_notes) =
     [score_note [1, 0] note_b] \<and>
   filter (\<lambda>n. has_embedding n \<and> cosineSimilarity [1, 0] (embedding_of n) = 0)
     example_notes = [note_b]"
  using ranking_sorted_stable [of "[1, 0]" example_notes 0]
  by (simp add: context_example relevant_example example_scores example_zero_scores)

end
